theory Spec2Isabelle
  imports Complex_Main
begin

section \<open>Authentication context (frontend/src/context/AuthContext.jsx)\<close>

text \<open>
  The user object the account service returns. Only the two fields the components below
  read are kept: \<open>user.id\<close> and \<open>user.role\<close>. The React state \<open>user\<close> is either
  \<open>null\<close> or such an object, so it is a \<open>User option\<close>.
\<close>

record User =
  id' :: string
  role :: string

text \<open>
  The value object of \<open>AuthProvider\<close>, restricted to its data fields (the methods
  \<open>login\<close>, \<open>logout\<close>, ... are not part of any property below).
\<close>

record auth_context =
  user :: "User option"
  loading :: bool
  isAuthenticated :: bool
  isAdmin :: bool
  isTeacher :: bool
  isStudent :: bool

text \<open>
  \<open>user?.role\<close>: \<open>undefined\<close> (here \<open>None\<close>) when the user is \<open>null\<close>,
  the role otherwise. \<open>undefined === 'admin'\<close> is false.
\<close>

definition optional_role :: "User option \<Rightarrow> string option" where
  "optional_role u = map_option role u"

definition AuthProvider_value :: "User option \<Rightarrow> bool \<Rightarrow> auth_context" where
  "AuthProvider_value u l =
     \<lparr> user = u,
       loading = l,
       isAuthenticated = (u \<noteq> None),
       isAdmin = (optional_role u = Some ''admin''),
       isTeacher = (optional_role u = Some ''teacher''),
       isStudent = (optional_role u = Some ''student'') \<rparr>"

text \<open>How many of the three role flags are set.\<close>

definition role_flags_set :: "auth_context \<Rightarrow> nat" where
  "role_flags_set c =
     (if isAdmin c then 1 else 0) + (if isTeacher c then 1 else 0) + (if isStudent c then 1 else 0)"


section \<open>Protected routes (frontend/src/components/common/ProtectedRoute.jsx)\<close>

text \<open>
  What \<open>ProtectedRoute\<close> returns: the loading screen, a \<open>Navigate\<close> element (its target
  and, for the login redirect, the location it remembers in \<open>state.from\<close>), or the children.
\<close>

datatype 'a route_view =
    LoadingScreen
  | Navigate string "string option"
  | Children 'a

text \<open>
  The prop \<open>requiredRole\<close> is \<open>undefined\<close> (\<open>None\<close>) or a string. The guard
  \<open>requiredRole && ...\<close> tests JavaScript truthiness: \<open>undefined\<close> and the empty
  string are falsy, every other string is truthy.
\<close>

definition truthy_string :: "string option \<Rightarrow> bool" where
  "truthy_string r = (case r of None \<Rightarrow> False | Some s \<Rightarrow> s \<noteq> [])"

definition ProtectedRoute :: "auth_context \<Rightarrow> string \<Rightarrow> string option \<Rightarrow> 'a \<Rightarrow> 'a route_view" where
  "ProtectedRoute ctx location requiredRole children =
     (if loading ctx then LoadingScreen
      else if \<not> isAuthenticated ctx then Navigate ''/login'' (Some location)
      else if truthy_string requiredRole \<and> optional_role (user ctx) \<noteq> requiredRole
        then Navigate ''/dashboard'' None
      else Children children)"


section \<open>Teacher analytics page (components/pmsas/TeacherAnalytics.jsx)\<close>

text \<open>
  The three returns of \<open>TeacherAnalytics\<close>, in the order of the source: the access check
  comes first, then the loading state, then the dashboard built from the two pieces of
  loaded state (\<open>dashboard\<close>, which starts as \<open>null\<close>, and \<open>atRiskStudents\<close>).
\<close>

datatype ('d, 'r) teacher_view =
    AccessDenied
  | LoadingAnalytics
  | TeacherDashboard "'d option" "'r list"

definition TeacherAnalytics ::
  "auth_context \<Rightarrow> bool \<Rightarrow> 'd option \<Rightarrow> 'r list \<Rightarrow> ('d, 'r) teacher_view" where
  "TeacherAnalytics ctx loading_data dashboard atRiskStudents =
     (if \<not> isTeacher ctx \<and> \<not> isAdmin ctx then AccessDenied
      else if loading_data then LoadingAnalytics
      else TeacherDashboard dashboard atRiskStudents)"

text \<open>
  The \<open>/analytics\<close> route of \<open>App.jsx\<close>: \<open>TeacherAnalytics\<close> inside a
  \<open>ProtectedRoute\<close> with no \<open>requiredRole\<close>.
\<close>

definition analytics_route ::
  "auth_context \<Rightarrow> string \<Rightarrow> bool \<Rightarrow> 'd option \<Rightarrow> 'r list \<Rightarrow> ('d, 'r) teacher_view route_view" where
  "analytics_route ctx location loading_data dashboard atRiskStudents =
     ProtectedRoute ctx location None (TeacherAnalytics ctx loading_data dashboard atRiskStudents)"

text \<open>
  The \<open>/admin/users\<close> route of \<open>App.jsx\<close>: the page inside a \<open>ProtectedRoute\<close>
  with \<open>requiredRole="admin"\<close>.
\<close>

definition admin_users_route :: "auth_context \<Rightarrow> string \<Rightarrow> 'a \<Rightarrow> 'a route_view" where
  "admin_users_route ctx location page = ProtectedRoute ctx location (Some ''admin'') page"


section \<open>The PMSAS service object (frontend/src/services/pmsasService.js)\<close>

text \<open>
  JSON-like JavaScript values: what the components pass to the service and what the
  server answers.
\<close>

datatype jsval =
    JUndefined
  | JNull
  | JBool bool
  | JNum int
  | JStr string
  | JArr "jsval list"
  | JObj "(string \<times> jsval) list"

text \<open>JavaScript truthiness, as \<open>&&\<close>, \<open>||\<close> and \<open>?:\<close> test it.\<close>

fun truthy :: "jsval \<Rightarrow> bool" where
  "truthy JUndefined = False"
| "truthy JNull = False"
| "truthy (JBool b) = b"
| "truthy (JNum n) = (n \<noteq> 0)"
| "truthy (JStr s) = (s \<noteq> [])"
| "truthy (JArr xs) = True"
| "truthy (JObj kvs) = True"

text \<open>
  What a \<open>try\<close> block can catch here: a \<open>TypeError\<close> raised by the JavaScript engine
  (calling something that is not a function, reading a property of \<open>null\<close> or
  \<open>undefined\<close>), or a rejected request, which carries axios' \<open>err.response\<close>
  (\<open>JUndefined\<close> when the server never answered).
\<close>

datatype js_error =
    TypeError string
  | RequestFailed jsval

text \<open>\<open>v?.k\<close>: \<open>undefined\<close> unless \<open>v\<close> is an object that has the property.\<close>

fun optional_prop :: "jsval \<Rightarrow> string \<Rightarrow> jsval" where
  "optional_prop (JObj kvs) k = (case map_of kvs k of Some x \<Rightarrow> x | None \<Rightarrow> JUndefined)"
| "optional_prop v k = JUndefined"

text \<open>\<open>v.k\<close>: a \<open>TypeError\<close> on \<open>null\<close> and \<open>undefined\<close>.\<close>

fun get_prop :: "jsval \<Rightarrow> string \<Rightarrow> js_error + jsval" where
  "get_prop JUndefined k = Inl (TypeError (''Cannot read properties of undefined: '' @ k))"
| "get_prop JNull k = Inl (TypeError (''Cannot read properties of null: '' @ k))"
| "get_prop v k = Inr (optional_prop v k)"

datatype http_verb = GET | POST

record request =
  verb :: http_verb
  url :: string
  params :: "(string \<times> jsval) list"
  body :: jsval

text \<open>
  The axios instance \<open>api\<close> is a parameter: the server with its state \<open>'srv\<close>. It takes a
  request and the server state and gives the \<open>data\<close> of the response, or the rejection,
  and the new server state.
\<close>

type_synonym 'srv api = "request \<Rightarrow> 'srv \<Rightarrow> (js_error + jsval) \<times> 'srv"

text \<open>The \<open>i\<close>-th actual argument of a call; a missing argument is \<open>undefined\<close>.\<close>

definition arg :: "jsval list \<Rightarrow> nat \<Rightarrow> jsval" where
  "arg args i = (if i < length args then args ! i else JUndefined)"

text \<open>A default parameter value \<open>(x = d)\<close> applies when the argument is \<open>undefined\<close>.\<close>

definition default_to :: "jsval \<Rightarrow> jsval \<Rightarrow> jsval" where
  "default_to d v = (if v = JUndefined then d else v)"

definition get_request :: "string \<Rightarrow> (string \<times> jsval) list \<Rightarrow> request" where
  "get_request u ps = \<lparr> verb = GET, url = u, params = ps, body = JUndefined \<rparr>"

definition post_request :: "string \<Rightarrow> jsval \<Rightarrow> request" where
  "post_request u b = \<lparr> verb = POST, url = u, params = [], body = b \<rparr>"

text \<open>
  The methods of \<open>pmsasService\<close>. Each one sends a single request and returns
  \<open>response.data\<close>, so a method is the request it builds from its arguments.
\<close>

definition logActivity :: "jsval list \<Rightarrow> request" where
  "logActivity args = post_request ''/pmsas/activity'' (arg args 0)"

definition getStreak :: "jsval list \<Rightarrow> request" where
  "getStreak args = get_request ''/pmsas/streak'' []"

definition getAllBadges :: "jsval list \<Rightarrow> request" where
  "getAllBadges args =
     (let category = default_to JNull (arg args 0)
      in get_request ''/pmsas/badges'' (if truthy category then [(''category'', category)] else []))"

definition getMyBadges :: "jsval list \<Rightarrow> request" where
  "getMyBadges args = get_request ''/pmsas/badges/me'' []"

definition getLeaderboard :: "jsval list \<Rightarrow> request" where
  "getLeaderboard args =
     (let type = default_to (JStr ''streak'') (arg args 0);
          limit = default_to (JNum 10) (arg args 1)
      in get_request ''/pmsas/leaderboard'' [(''type'', type), (''limit'', limit)])"

definition getPoints :: "jsval list \<Rightarrow> request" where
  "getPoints args = get_request ''/pmsas/points'' []"

definition getMyAnalytics :: "jsval list \<Rightarrow> request" where
  "getMyAnalytics args = get_request ''/pmsas/analytics/me'' []"

definition getSummary :: "jsval list \<Rightarrow> request" where
  "getSummary args = get_request ''/pmsas/summary'' []"

definition getTeacherDashboard :: "jsval list \<Rightarrow> request" where
  "getTeacherDashboard args =
     (let classId = default_to JNull (arg args 0)
      in get_request ''/pmsas/dashboard/teacher''
           (if truthy classId then [(''class_id'', classId)] else []))"

definition getAtRiskStudents :: "jsval list \<Rightarrow> request" where
  "getAtRiskStudents args = get_request ''/pmsas/dashboard/at-risk'' []"

text \<open>The object itself: its property names and the methods they hold, in source order.\<close>

definition pmsasService :: "(string \<times> (jsval list \<Rightarrow> request)) list" where
  "pmsasService =
     [(''logActivity'', logActivity),
      (''getStreak'', getStreak),
      (''getAllBadges'', getAllBadges),
      (''getMyBadges'', getMyBadges),
      (''getLeaderboard'', getLeaderboard),
      (''getPoints'', getPoints),
      (''getMyAnalytics'', getMyAnalytics),
      (''getSummary'', getSummary),
      (''getTeacherDashboard'', getTeacherDashboard),
      (''getAtRiskStudents'', getAtRiskStudents)]"

text \<open>
  \<open>await service.name(args)\<close>: a property the object does not have is \<open>undefined\<close>, and
  calling it raises a \<open>TypeError\<close> before any request is sent.
\<close>

definition call_method ::
  "(string \<times> (jsval list \<Rightarrow> request)) list \<Rightarrow> string \<Rightarrow> jsval list \<Rightarrow> 'srv api \<Rightarrow> 'srv
     \<Rightarrow> (js_error + jsval) \<times> 'srv" where
  "call_method service name args api srv =
     (case map_of service name of
        None \<Rightarrow> (Inl (TypeError (name @ '' is not a function'')), srv)
      | Some method \<Rightarrow> api (method args) srv)"


section \<open>Streak card (frontend/src/components/pmsas/StreakCard.jsx)\<close>

text \<open>The four pieces of React state of \<open>StreakCard\<close>.\<close>

record StreakCard_state =
  streak :: jsval
  streak_loading :: bool
  freezing :: bool
  message :: jsval

text \<open>\<open>err.response?.data?.error || 'Failed to apply freeze'\<close>\<close>

definition freeze_failure_message :: "js_error \<Rightarrow> jsval" where
  "freeze_failure_message err =
     (let response = (case err of TypeError m \<Rightarrow> JUndefined | RequestFailed r \<Rightarrow> r);
          e = optional_prop (optional_prop response ''data'') ''error''
      in if truthy e then e else JStr ''Failed to apply freeze'')"

text \<open>
  \<open>handleUseFreeze\<close>, with the answer of \<open>window.confirm\<close> as \<open>confirmed\<close>. The result is
  the component state once the handler has finished (before the timer that clears the
  message after three seconds) and the server state. The success message ends with a
  snowflake emoji in the source.
\<close>

definition handleUseFreeze ::
  "bool \<Rightarrow> 'srv api \<Rightarrow> StreakCard_state \<times> 'srv \<Rightarrow> StreakCard_state \<times> 'srv" where
  "handleUseFreeze confirmed api x =
     (case x of (st, srv) \<Rightarrow>
        if \<not> confirmed then (st, srv)
        else
          (case call_method pmsasService ''useStreakFreeze'' [] api srv of
             (Inl err, srv') \<Rightarrow>
               (st\<lparr>message := freeze_failure_message err, freezing := False\<rparr>, srv')
           | (Inr data, srv') \<Rightarrow>
               (case get_prop data ''streak'' of
                  Inl err \<Rightarrow>
                    (st\<lparr>message := freeze_failure_message err, freezing := False\<rparr>, srv')
                | Inr s \<Rightarrow>
                    (st\<lparr>streak := s, message := JStr ''Streak freeze applied!'',
                        freezing := False\<rparr>, srv'))))"


section \<open>Leaderboard component (frontend/src/components/pmsas/Leaderboard.jsx)\<close>

text \<open>
  The single argument \<open>fetchLeaderboard\<close> passes to \<open>pmsasService.getLeaderboard\<close>: the
  object \<open>{period, limit: 10, course_id: courseId}\<close>.
\<close>

definition fetchLeaderboard_args :: "string \<Rightarrow> jsval \<Rightarrow> jsval list" where
  "fetchLeaderboard_args period courseId =
     [JObj [(''period'', JStr period), (''limit'', JNum 10), (''course_id'', courseId)]]"

text \<open>The request \<open>fetchLeaderboard\<close> sends for a selected period.\<close>

definition fetchLeaderboard_request :: "string \<Rightarrow> jsval \<Rightarrow> js_error + request" where
  "fetchLeaderboard_request period courseId =
     (case map_of pmsasService ''getLeaderboard'' of
        None \<Rightarrow> Inl (TypeError ''getLeaderboard is not a function'')
      | Some method \<Rightarrow> Inr (method (fetchLeaderboard_args period courseId)))"

text \<open>
  The request of the Progress Dashboard, which calls \<open>getLeaderboard('streak', 10)\<close>
  with positional arguments.
\<close>

definition loadData_leaderboard_request :: "js_error + request" where
  "loadData_leaderboard_request =
     (case map_of pmsasService ''getLeaderboard'' of
        None \<Rightarrow> Inl (TypeError ''getLeaderboard is not a function'')
      | Some method \<Rightarrow> Inr (method [JStr ''streak'', JNum 10]))"

text \<open>The value a request carries under a query parameter.\<close>

definition request_param :: "js_error + request \<Rightarrow> string \<Rightarrow> jsval option" where
  "request_param r k = (case r of Inl e \<Rightarrow> None | Inr q \<Rightarrow> map_of (params q) k)"

text \<open>
  The state the component renders from: the entries of \<open>data.leaderboard\<close> and the
  object \<open>data.my_rank\<close> (\<open>null\<close> when the server sends none).
\<close>

record leaderboard_entry =
  entry_user_id :: string
  entry_rank :: int
  entry_user_name :: string
  entry_current_streak :: int
  entry_activities_count :: int
  entry_total_points :: int

record my_rank =
  my_rank_rank :: int
  my_rank_user_name :: string
  my_rank_current_streak :: int
  my_rank_total_points :: int

text \<open>\<open>entry.user_id === user?.id\<close>: never true when the user is \<open>null\<close>.\<close>

definition isCurrentUser :: "User option \<Rightarrow> string \<Rightarrow> bool" where
  "isCurrentUser u uid = (map_option id' u = Some uid)"

text \<open>
  The list part of the component (loading, empty, or one row per entry with its
  "You" mark) and the "Your Position" section, which shows \<open>#{myRank.rank}\<close> and the
  other fields of \<open>myRank\<close> when it is rendered.
\<close>

datatype leaderboard_list =
    LeaderboardLoading
  | LeaderboardEmpty
  | LeaderboardRows "(leaderboard_entry \<times> bool) list"

definition my_rank_section :: "User option \<Rightarrow> leaderboard_entry list \<Rightarrow> my_rank option \<Rightarrow> my_rank option" where
  "my_rank_section u leaderboard myRank =
     (if myRank \<noteq> None \<and> find (\<lambda>e. isCurrentUser u (entry_user_id e)) leaderboard = None
      then myRank else None)"

definition Leaderboard_render ::
  "User option \<Rightarrow> leaderboard_entry list \<Rightarrow> my_rank option \<Rightarrow> bool
     \<Rightarrow> leaderboard_list \<times> my_rank option" where
  "Leaderboard_render u leaderboard myRank loading_lb =
     (if loading_lb then LeaderboardLoading
      else if length leaderboard = 0 then LeaderboardEmpty
      else LeaderboardRows (map (\<lambda>e. (e, isCurrentUser u (entry_user_id e))) leaderboard),
      my_rank_section u leaderboard myRank)"


section \<open>Progress dashboard (components/pmsas/ProgressDashboard.jsx)\<close>

text \<open>
  The \<open>leaderboard\<close> state of the dashboard is \<open>null\<close> or the object the server sent:
  its \<open>entries\<close> (possibly missing), \<open>user_rank\<close> and \<open>total_participants\<close>.
\<close>

record streak_entry =
  streak_user_id :: string
  streak_user_name :: string
  score :: int
  secondary_score :: int

record streak_leaderboard =
  entries :: "streak_entry list option"
  user_rank :: "int option"
  total_participants :: "int option"

text \<open>\<open>leaderboard?.entries?.map(...)\<close> renders nothing when either part is missing.\<close>

definition entries_of :: "streak_leaderboard option \<Rightarrow> streak_entry list" where
  "entries_of lb =
     (case lb of None \<Rightarrow> [] | Some l \<Rightarrow> (case entries l of None \<Rightarrow> [] | Some es \<Rightarrow> es))"

text \<open>
  \<open>{leaderboard?.user_rank && leaderboard.user_rank > 10 && (<div>Your Position ...</div>)}\<close>.
  A missing rank renders nothing; the rank 0 is falsy and React prints it as the text
  \<open>0\<close>; any other rank gives the row exactly when it is greater than 10.
\<close>

datatype position_row =
    NoPositionRow
  | ZeroText
  | YourPosition int "int option"

definition your_position :: "streak_leaderboard option \<Rightarrow> position_row" where
  "your_position lb =
     (case lb of
        None \<Rightarrow> NoPositionRow
      | Some l \<Rightarrow>
          (case user_rank l of
             None \<Rightarrow> NoPositionRow
           | Some r \<Rightarrow>
               if r = 0 then ZeroText
               else if r > 10 then YourPosition r (total_participants l)
               else NoPositionRow))"

text \<open>
  The 30 cells of "Activity This Month". Each cell calls \<open>Math.random()\<close> once, so the
  render takes the results of these calls as \<open>random\<close>: cell \<open>i\<close> gets the \<open>i\<close>-th one
  and has the class \<open>active\<close> when it is greater than 0.5.
\<close>

definition activity_calendar :: "(nat \<Rightarrow> real) \<Rightarrow> bool list" where
  "activity_calendar random = map (\<lambda>i. random i > 0.5) [0..<30]"

text \<open>The entries of a ranking with their 1-based index \<open>idx + 1\<close>.\<close>

definition numbered :: "streak_entry list \<Rightarrow> (nat \<times> streak_entry) list" where
  "numbered es = map (\<lambda>(idx, e). (idx + 1, e)) (zip [0..<length es] es)"

text \<open>
  The rows of the leaderboard tab: the numbered entries, each with its "You" mark
  (\<open>entry.user_id === user?.id\<close>).
\<close>

definition leaderboard_rows :: "User option \<Rightarrow> streak_entry list \<Rightarrow> (nat \<times> streak_entry \<times> bool) list" where
  "leaderboard_rows u es =
     map (\<lambda>(n, e). (n, e, isCurrentUser u (streak_user_id e))) (numbered es)"

text \<open>
  Reading a property of \<open>null\<close> or \<open>undefined\<close> throws a \<open>TypeError\<close>; of any other
  value it does not.
\<close>

definition nullish :: "jsval \<Rightarrow> bool" where
  "nullish v = (v = JUndefined \<or> v = JNull)"

text \<open>
  "Recent Badges": \<open>badges.slice(0, 4).map(badge => ... badge.rarity ... badge.icon ...
  badge.name)\<close> when the list is not empty, a placeholder otherwise. The map throws when
  one of the first four entries is \<open>null\<close> or \<open>undefined\<close>; \<open>None\<close> stands for the throw.
\<close>

definition recent_badges :: "jsval list \<Rightarrow> jsval list option" where
  "recent_badges badges = (if list_ex nullish (take 4 badges) then None else Some (take 4 badges))"

text \<open>\<open>s.replace(c, d)\<close> with a string pattern replaces the first occurrence only.\<close>

fun replace_first :: "char \<Rightarrow> char \<Rightarrow> string \<Rightarrow> string" where
  "replace_first c d [] = []"
| "replace_first c d (x # xs) = (if x = c then d # xs else x # replace_first c d xs)"

text \<open>
  The predictions block, \<open>{analytics?.predictions && (...)}\<close>. A falsy value is handed to
  React as it is. A truthy one gives the card, whose body calls
  \<open>analytics.predictions.engagement_level.replace('_', ' ')\<close> and
  \<open>analytics.predictions.recommendations.map(...)\<close>: the first throws unless
  \<open>engagement_level\<close> is a string, the second unless \<open>recommendations\<close> is an array. The
  card shows the engagement level with its first underscore replaced, the consistency
  score, the trend and the recommendations. \<open>None\<close> stands for the throw.
\<close>

datatype predictions_view =
    NoPredictions jsval
  | PredictionsCard string jsval jsval "jsval list"

definition predictions_block :: "jsval \<Rightarrow> predictions_view option" where
  "predictions_block analytics =
     (let p = optional_prop analytics ''predictions''
      in if \<not> truthy p then Some (NoPredictions p)
         else
           (case optional_prop p ''engagement_level'' of
              JStr level \<Rightarrow>
                (case optional_prop p ''recommendations'' of
                   JArr recs \<Rightarrow>
                     Some (PredictionsCard (replace_first CHR ''_'' CHR '' '' level)
                             (optional_prop p ''consistency_score'') (optional_prop p ''trend'') recs)
                 | other \<Rightarrow> None)
            | other \<Rightarrow> None))"

text \<open>
  The content under the tabs, as the data each tab shows. The overview holds the
  calendar, the recent badges, the first five entries and the predictions block.
\<close>

datatype tab_content =
    OverviewTab "bool list" "jsval list" "(nat \<times> streak_entry) list" predictions_view
  | BadgesTab "jsval list"
  | LeaderboardTab "(nat \<times> streak_entry \<times> bool) list" position_row
  | InsightsTab jsval
  | InsightsSkipped jsval
  | NoTab

text \<open>
  What the component function gives: the loading screen, the page (the header is built
  from \<open>summary\<close> with \<open>summary?.field || default\<close> throughout and never throws), or no
  element at all because evaluating the tab content threw a \<open>TypeError\<close>.
\<close>

datatype progress_view =
    ProgressLoading
  | ProgressPage jsval tab_content
  | RenderError

definition overview ::
  "streak_leaderboard option \<Rightarrow> jsval list \<Rightarrow> jsval \<Rightarrow> (nat \<Rightarrow> real) \<Rightarrow> tab_content option" where
  "overview leaderboard badges analytics random =
     (case recent_badges badges of
        None \<Rightarrow> None
      | Some shown \<Rightarrow>
          (case predictions_block analytics of
             None \<Rightarrow> None
           | Some block \<Rightarrow>
               Some (OverviewTab (activity_calendar random) shown
                       (numbered (take 5 (entries_of leaderboard))) block)))"

text \<open>
  The badges tab maps over all badges and reads \<open>badge.rarity\<close>, \<open>badge.earned_at\<close> and
  so on: it throws when an entry is \<open>null\<close> or \<open>undefined\<close>.
\<close>

definition badges_tab :: "jsval list \<Rightarrow> tab_content option" where
  "badges_tab badges = (if list_ex nullish badges then None else Some (BadgesTab badges))"

text \<open>
  The insights tab, \<open>{activeTab === 'insights' && analytics && (...)}\<close>. Its body reads
  \<open>analytics.engagement.total_activities_30d\<close>, calls
  \<open>analytics.engagement.avg_daily_activities.toFixed(1)\<close> and reads
  \<open>analytics.predictions.risk_of_dropout\<close>: it throws when \<open>engagement\<close> or
  \<open>predictions\<close> is \<open>null\<close> or \<open>undefined\<close>, or \<open>avg_daily_activities\<close> is not a number.
\<close>

definition insights_tab :: "jsval \<Rightarrow> tab_content option" where
  "insights_tab analytics =
     (if \<not> truthy analytics then Some (InsightsSkipped analytics)
      else if nullish (optional_prop analytics ''engagement'') then None
      else
        (case optional_prop (optional_prop analytics ''engagement'') ''avg_daily_activities'' of
           JNum avg \<Rightarrow>
             if nullish (optional_prop analytics ''predictions'') then None
             else Some (InsightsTab analytics)
         | other \<Rightarrow> None))"

definition ProgressDashboard ::
  "User option \<Rightarrow> bool \<Rightarrow> string \<Rightarrow> jsval \<Rightarrow> streak_leaderboard option \<Rightarrow> jsval list \<Rightarrow> jsval
     \<Rightarrow> (nat \<Rightarrow> real) \<Rightarrow> progress_view" where
  "ProgressDashboard u loading_data activeTab summary leaderboard badges analytics random =
     (if loading_data then ProgressLoading
      else
        (case
           (if activeTab = ''overview'' then overview leaderboard badges analytics random
            else if activeTab = ''badges'' then badges_tab badges
            else if activeTab = ''leaderboard''
              then Some (LeaderboardTab (leaderboard_rows u (entries_of leaderboard))
                           (your_position leaderboard))
            else if activeTab = ''insights'' then insights_tab analytics
            else Some NoTab)
         of
           None \<Rightarrow> RenderError
         | Some content \<Rightarrow> ProgressPage summary content))"

text \<open>
  Modelled from the spec: what section 4.4 promises of the server's answer to the
  dashboard's request for the top 10 (the server is missing from the sources): at most
  10 entries, in rank order, and \<open>user_rank\<close> is the user's 1-based position, so a
  listed user's \<open>user_rank\<close> is the number of their row.
\<close>

definition top_ten_answer :: "User option \<Rightarrow> streak_leaderboard \<Rightarrow> bool" where
  "top_ten_answer u l =
     (length (entries_of (Some l)) \<le> 10 \<and>
      list_all (\<lambda>(n, e). if isCurrentUser u (streak_user_id e) then user_rank l = Some (int n) else True)
        (numbered (entries_of (Some l))))"


section \<open>The PMSAS core behind \<open>/pmsas\<close> (server side, not among the source files)\<close>

text \<open>
  The components above only call the server. The streak tracker, the points ledger and
  the badge engine themselves run on the server, outside the frontend sources, so this
  section models them from sections 3, 4.1 to 4.3 and 7 of the specification. A calendar day is
  a day number, a timestamp an instant; the timezone policy that maps an instant to its
  day is left open by the specification and is a parameter \<open>date\<close> throughout.
\<close>

type_synonym day = int
type_synonym timestamp = int
type_synonym user_id = string

text \<open>
  Modelled from the spec: the StreakState record of section 3 (the server's streak
  tracker is missing from the sources). \<open>last_active_date\<close> is \<open>None\<close> before the first
  activity.
\<close>

record StreakState =
  current_streak :: nat
  longest_streak :: nat
  last_active_date :: "day option"
  freeze_available :: nat
  freeze_used_dates :: "day set"
  total_active_days :: nat

text \<open>
  Modelled from the spec: the two errors of section 7 that the operations modelled here
  can raise (the server's error types are missing from the sources).
\<close>

datatype pmsas_error = NoFreezeAvailable | InvalidAmount

text \<open>
  Modelled from the spec: "\<open>longest_streak = max(longest_streak, current_streak)\<close> after
  every update" (section 4.1; the server's streak tracker is missing from the sources).
\<close>

definition update_longest :: "StreakState \<Rightarrow> StreakState" where
  "update_longest s = s\<lparr>longest_streak := max (longest_streak s) (current_streak s)\<rparr>"

text \<open>
  Modelled from the spec: the skipped days \<open>(last_active_date, d)\<close> of a gap (section
  4.1; missing from the sources). A day is covered when \<open>useStreakFreeze\<close> marked it as
  frozen.
\<close>

definition skipped_days :: "day \<Rightarrow> day \<Rightarrow> day list" where
  "skipped_days l d = [l + 1..d - 1]"

text \<open>
  Modelled from the spec: "a freeze exists covering every skipped day" (section 4.1;
  missing from the sources).
\<close>

definition gap_covered :: "StreakState \<Rightarrow> day \<Rightarrow> day \<Rightarrow> bool" where
  "gap_covered s l d = list_all (\<lambda>x. x \<in> freeze_used_dates s) (skipped_days l d)"

text \<open>
  Modelled from the spec: \<open>recordActivity\<close> of section 4.1 on the day \<open>d\<close> of the
  timestamp (the server's streak tracker is missing from the sources). The cases are
  those of the specification, in its order: the first activity ever, the same day
  (no-op), the next day, and a gap, which continues the streak when it is fully covered
  (consuming one token per skipped day, bounded by \<open>freeze_available\<close>) and restarts it
  at 1 otherwise. Day \<open>d\<close> becomes the last active day and counts as an active day in
  every case that updates. The specification orders a user's events by timestamp and
  gives no case for a day before \<open>last_active_date\<close>; no rule applies there and the
  state stays as it is.
\<close>

definition recordActivity_on :: "day \<Rightarrow> StreakState \<Rightarrow> StreakState" where
  "recordActivity_on d s =
     (case last_active_date s of
        None \<Rightarrow>
          update_longest
            (s\<lparr>current_streak := 1,
               total_active_days := total_active_days s + 1,
               last_active_date := Some d\<rparr>)
      | Some l \<Rightarrow>
          if d = l then s
          else if d = l + 1 then
            update_longest
              (s\<lparr>current_streak := current_streak s + 1,
                 total_active_days := total_active_days s + 1,
                 last_active_date := Some d\<rparr>)
          else if d > l + 1 then
            (if gap_covered s l d then
               update_longest
                 (s\<lparr>current_streak := current_streak s + 1,
                    freeze_available :=
                      freeze_available s - min (length (skipped_days l d)) (freeze_available s),
                    total_active_days := total_active_days s + 1,
                    last_active_date := Some d\<rparr>)
             else
               update_longest
                 (s\<lparr>current_streak := 1,
                    total_active_days := total_active_days s + 1,
                    last_active_date := Some d\<rparr>))
          else s)"

text \<open>
  Modelled from the spec: \<open>recordActivity(user_id, timestamp)\<close> with \<open>d = date(timestamp)\<close>
  under the timezone policy (section 4.1; missing from the sources).
\<close>

definition recordActivity :: "(timestamp \<Rightarrow> day) \<Rightarrow> timestamp \<Rightarrow> StreakState \<Rightarrow> StreakState" where
  "recordActivity date ts s = recordActivity_on (date ts) s"

text \<open>
  Modelled from the spec: \<open>streak_at_risk\<close> of section 4.1 (missing from the sources):
  no activity yet today and a running streak. A freeze used today clears it for the day.
\<close>

definition streak_at_risk :: "day \<Rightarrow> StreakState \<Rightarrow> bool" where
  "streak_at_risk today s =
     (case last_active_date s of
        None \<Rightarrow> False
      | Some l \<Rightarrow> l < today \<and> current_streak s > 0 \<and> today \<notin> freeze_used_dates s)"

text \<open>
  Modelled from the spec: \<open>useStreakFreeze\<close> of section 4.1 (missing from the sources),
  in the order of its sentences: it fails without a token, succeeds without a change
  when the streak is not at risk, and otherwise spends a token and marks today frozen.
\<close>

definition useStreakFreeze :: "day \<Rightarrow> StreakState \<Rightarrow> pmsas_error + StreakState" where
  "useStreakFreeze today s =
     (if freeze_available s = 0 then Inl NoFreezeAvailable
      else if \<not> streak_at_risk today s then Inr s
      else Inr (s\<lparr>freeze_available := freeze_available s - 1,
                  freeze_used_dates := insert today (freeze_used_dates s)\<rparr>))"

text \<open>
  Modelled from the spec: \<open>awardPoints\<close> of section 4.2 on the running total (the
  server's points engine is missing from the sources).
\<close>

definition awardPoints :: "int \<Rightarrow> nat \<Rightarrow> pmsas_error + nat" where
  "awardPoints amount points = (if amount < 0 then Inl InvalidAmount else Inr (points + nat amount))"

text \<open>
  Modelled from the spec: an ActivityEvent of section 3 (missing from the sources).
\<close>

record ActivityEvent =
  activity_type :: string
  event_timestamp :: timestamp
  duration_seconds :: nat

text \<open>
  Modelled from the spec: a BadgeDefinition of section 3 (the server's badge catalog is
  missing from the sources), without its display fields (name, icon, description,
  rarity). The criteria read the streak state, the point total and the activity log.
\<close>

record BadgeDefinition =
  badge_type :: string
  points_value :: nat
  criteria :: "StreakState \<Rightarrow> nat \<Rightarrow> ActivityEvent list \<Rightarrow> bool"

text \<open>
  Modelled from the spec: everything the core keeps for one user (section 3; missing
  from the sources): the streak state, the point total of the ledger, the EarnedBadge
  rows \<open>(badge_type, earned_at)\<close> and the activity log.
\<close>

record UserState =
  streak_state :: StreakState
  total_points :: nat
  earned_badges :: "(string \<times> timestamp) list"
  activity_log :: "ActivityEvent list"

text \<open>
  Modelled from the spec: \<open>evaluateBadges\<close> of section 4.3 (the server's badge engine is
  missing from the sources). For each definition not yet earned, the criteria are
  evaluated on the read snapshot taken when the call starts (section 9); a satisfied one
  inserts the EarnedBadge row and awards its points as one unit (section 7).
\<close>

fun award_each :: "BadgeDefinition list \<Rightarrow> UserState \<Rightarrow> timestamp \<Rightarrow> UserState \<Rightarrow> UserState" where
  "award_each [] snapshot now s = s"
| "award_each (b # bs) snapshot now s =
     award_each bs snapshot now
       (if badge_type b \<in> set (map fst (earned_badges s)) then s
        else if criteria b (streak_state snapshot) (total_points snapshot) (activity_log snapshot)
        then (case awardPoints (int (points_value b)) (total_points s) of
                Inl e \<Rightarrow> s
              | Inr t \<Rightarrow> s\<lparr>earned_badges := earned_badges s @ [(badge_type b, now)],
                           total_points := t\<rparr>)
        else s)"

text \<open>
  Modelled from the spec: \<open>evaluateBadges(user_id)\<close> over the whole catalog, with the
  state at the start of the call as the snapshot (sections 4.3 and 9; missing from the
  sources).
\<close>

definition evaluateBadges :: "BadgeDefinition list \<Rightarrow> timestamp \<Rightarrow> UserState \<Rightarrow> UserState" where
  "evaluateBadges catalog now s = award_each catalog s now s"

text \<open>
  Modelled from the spec: the operations of the core on one user (sections 4.1 to 4.3
  and 6; missing from the sources). A failed operation changes nothing (section 7), so
  it is reported as an error and the caller keeps the state it had.
\<close>

datatype operation =
    RecordActivity timestamp
  | UseStreakFreeze timestamp
  | AwardPoints int
  | EvaluateBadges timestamp
  | LogActivity ActivityEvent

text \<open>
  Modelled from the spec: what each operation does to the state of its user (sections
  4.1 to 4.3; missing from the sources). Each component writes only the part of the
  state it owns (section 3).
\<close>

fun apply_operation ::
  "(timestamp \<Rightarrow> day) \<Rightarrow> BadgeDefinition list \<Rightarrow> operation \<Rightarrow> UserState \<Rightarrow> pmsas_error + UserState" where
  "apply_operation date catalog (RecordActivity ts) s =
     Inr (s\<lparr>streak_state := recordActivity date ts (streak_state s)\<rparr>)"
| "apply_operation date catalog (UseStreakFreeze now) s =
     (case useStreakFreeze (date now) (streak_state s) of
        Inl e \<Rightarrow> Inl e
      | Inr st \<Rightarrow> Inr (s\<lparr>streak_state := st\<rparr>))"
| "apply_operation date catalog (AwardPoints amount) s =
     (case awardPoints amount (total_points s) of
        Inl e \<Rightarrow> Inl e
      | Inr t \<Rightarrow> Inr (s\<lparr>total_points := t\<rparr>))"
| "apply_operation date catalog (EvaluateBadges now) s = Inr (evaluateBadges catalog now s)"
| "apply_operation date catalog (LogActivity ev) s =
     Inr (s\<lparr>activity_log := activity_log s @ [ev]\<rparr>)"

text \<open>
  Modelled from the spec: the per-user store and a run of operations, each addressed to
  one user (sections 3 and 5; missing from the sources). Operations on one user are
  serialised (section 5), so a run is a sequence; an operation touches the state of its
  own user only.
\<close>

definition step ::
  "(timestamp \<Rightarrow> day) \<Rightarrow> BadgeDefinition list \<Rightarrow> user_id \<times> operation
     \<Rightarrow> (user_id \<Rightarrow> UserState) \<Rightarrow> (user_id \<Rightarrow> UserState)" where
  "step date catalog uo store =
     (case apply_operation date catalog (snd uo) (store (fst uo)) of
        Inl e \<Rightarrow> store
      | Inr s' \<Rightarrow> store (fst uo := s'))"

text \<open>
  Modelled from the spec: a run applies its operations in order (section 5; missing
  from the sources).
\<close>

definition run ::
  "(timestamp \<Rightarrow> day) \<Rightarrow> BadgeDefinition list \<Rightarrow> (user_id \<times> operation) list
     \<Rightarrow> (user_id \<Rightarrow> UserState) \<Rightarrow> (user_id \<Rightarrow> UserState)" where
  "run date catalog ops store = fold (step date catalog) ops store"

text \<open>
  Modelled from the spec: one of the timezone policies section 9 names, platform-fixed
  UTC, as the day of a timestamp in seconds (missing from the sources). It is used for
  the concrete runs below.
\<close>

definition utc_day :: "timestamp \<Rightarrow> day" where
  "utc_day ts = ts div 86400"

text \<open>
  Modelled from the spec: the state of a user nothing has happened to, with \<open>n\<close> freeze
  tokens (section 3; missing from the sources).
\<close>

definition new_user :: "nat \<Rightarrow> UserState" where
  "new_user n =
     \<lparr> streak_state =
         \<lparr> current_streak = 0, longest_streak = 0, last_active_date = None,
           freeze_available = n, freeze_used_dates = {}, total_active_days = 0 \<rparr>,
       total_points = 0,
       earned_badges = [],
       activity_log = [] \<rparr>"

text \<open>
  The remaining definitions only serve to state properties of runs. Whether an
  operation is an activity recording for the user \<open>u\<close>:
\<close>

fun records_activity_for :: "user_id \<Rightarrow> user_id \<times> operation \<Rightarrow> bool" where
  "records_activity_for u (v, RecordActivity ts) = (v = u)"
| "records_activity_for u (v, other) = False"

text \<open>The points a run awards to the user \<open>u\<close> directly (its accepted \<open>AwardPoints\<close>).\<close>

fun awarded_directly :: "user_id \<Rightarrow> (user_id \<times> operation) list \<Rightarrow> nat" where
  "awarded_directly u [] = 0"
| "awarded_directly u ((v, AwardPoints amount) # ops) =
     (if v = u \<and> 0 \<le> amount then nat amount else 0) + awarded_directly u ops"
| "awarded_directly u (other # ops) = awarded_directly u ops"

text \<open>The points value the catalog gives a badge type, and the sum over earned rows.\<close>

definition value_of :: "BadgeDefinition list \<Rightarrow> string \<Rightarrow> nat" where
  "value_of catalog bt =
     (case find (\<lambda>b. badge_type b = bt) catalog of None \<Rightarrow> 0 | Some b \<Rightarrow> points_value b)"

definition badge_points :: "BadgeDefinition list \<Rightarrow> (string \<times> timestamp) list \<Rightarrow> nat" where
  "badge_points catalog earned = sum_list (map (\<lambda>row. value_of catalog (fst row)) earned)"


section \<open>Properties of the frontend components\<close>

text \<open>
  Claim C1. The streak-freeze operation invoked from the streak card
  (\<open>handleUseFreeze\<close> calling \<open>pmsasService.useStreakFreeze\<close>) should fail exactly when
  no freeze is available and otherwise spend a freeze and clear the risk. The service
  object has no property \<open>useStreakFreeze\<close>, so for every server, every server state and
  every card state a confirmed click ends in the \<open>catch\<close> branch: the message is the
  fallback text, the streak the card holds is unchanged, and the server state is
  unchanged because no request is sent.
\<close>

theorem handleUseFreeze_never_reaches_server:
  "map_of pmsasService ''useStreakFreeze'' = None \<and>
   handleUseFreeze True api (st, srv) =
     (st\<lparr>message := JStr ''Failed to apply freeze'', freezing := False\<rparr>, srv)"
  by (simp add: handleUseFreeze_def call_method_def pmsasService_def freeze_failure_message_def)

text \<open>
  Claim C2. The request \<open>fetchLeaderboard\<close> builds should carry the selected period as
  its type parameter and the limit 10. \<open>getLeaderboard\<close> takes the positional arguments
  \<open>(type, limit)\<close>, and \<open>fetchLeaderboard\<close> passes one options object: the request's
  \<open>type\<close> is that whole object and not the period, it has no \<open>period\<close> parameter, and its
  \<open>limit\<close> is the default of the method. The Progress Dashboard calls the same method
  positionally and sends \<open>type = 'streak'\<close>.
\<close>

theorem fetchLeaderboard_type_is_options_object:
  "fetchLeaderboard_request period courseId =
     Inr (get_request ''/pmsas/leaderboard''
            [(''type'', JObj [(''period'', JStr period), (''limit'', JNum 10), (''course_id'', courseId)]),
             (''limit'', JNum 10)]) \<and>
   request_param (fetchLeaderboard_request period courseId) ''type'' \<noteq> Some (JStr period) \<and>
   request_param (fetchLeaderboard_request period courseId) ''period'' = None \<and>
   request_param loadData_leaderboard_request ''type'' = Some (JStr ''streak'')"
  by (simp add: fetchLeaderboard_request_def fetchLeaderboard_args_def pmsasService_def
      getLeaderboard_def arg_def default_to_def request_param_def get_request_def
      loadData_leaderboard_request_def)

lemma activity_calendar_differs:
  "activity_calendar (\<lambda>i. 0.9) \<noteq> activity_calendar (\<lambda>i. 0.1)"
  by (simp add: activity_calendar_def upt_rec)

text \<open>
  Claim C6. Two renders of the overview over the same loaded data should be identical,
  the calendar being a function of the user's activity. The calendar cells are drawn
  with \<open>Math.random()\<close>: for every user, summary, leaderboard, badge list and analytics
  on which the overview renders at all (evaluating it does not throw), a render whose
  draws are all 0.9 differs from a render whose draws are all 0.1.
\<close>

theorem overview_differs_between_renders:
  "ProgressDashboard u False ''overview'' summary leaderboard badges analytics (\<lambda>i. 0.9) \<noteq> RenderError \<longrightarrow>
   ProgressDashboard u False ''overview'' summary leaderboard badges analytics (\<lambda>i. 0.9) \<noteq>
   ProgressDashboard u False ''overview'' summary leaderboard badges analytics (\<lambda>i. 0.1)"
  using activity_calendar_differs
  by (auto simp add: ProgressDashboard_def overview_def split: option.splits)

text \<open>
  With one earned badge and a complete predictions block the overview renders, and the
  two renders differ.
\<close>

theorem overview_differs_between_renders_witness:
  "ProgressDashboard None False ''overview'' JNull None
     [JObj [(''icon'', JStr ''*''), (''name'', JStr ''First day''), (''rarity'', JStr ''common'')]]
     (JObj [(''predictions'',
             JObj [(''engagement_level'', JStr ''very_high''), (''consistency_score'', JNum 80),
                   (''trend'', JStr ''stable''), (''recommendations'', JArr [JStr ''Keep going''])])])
     (\<lambda>i. 0.9) \<noteq> RenderError \<and>
   ProgressDashboard None False ''overview'' JNull None
     [JObj [(''icon'', JStr ''*''), (''name'', JStr ''First day''), (''rarity'', JStr ''common'')]]
     (JObj [(''predictions'',
             JObj [(''engagement_level'', JStr ''very_high''), (''consistency_score'', JNum 80),
                   (''trend'', JStr ''stable''), (''recommendations'', JArr [JStr ''Keep going''])])])
     (\<lambda>i. 0.9) \<noteq>
   ProgressDashboard None False ''overview'' JNull None
     [JObj [(''icon'', JStr ''*''), (''name'', JStr ''First day''), (''rarity'', JStr ''common'')]]
     (JObj [(''predictions'',
             JObj [(''engagement_level'', JStr ''very_high''), (''consistency_score'', JNum 80),
                   (''trend'', JStr ''stable''), (''recommendations'', JArr [JStr ''Keep going''])])])
     (\<lambda>i. 0.1)"
  using overview_differs_between_renders
    [of None JNull None
        "[JObj [(''icon'', JStr ''*''), (''name'', JStr ''First day''), (''rarity'', JStr ''common'')]]"
        "JObj [(''predictions'',
             JObj [(''engagement_level'', JStr ''very_high''), (''consistency_score'', JNum 80),
                   (''trend'', JStr ''stable''), (''recommendations'', JArr [JStr ''Keep going''])])]"]
  by (simp add: ProgressDashboard_def overview_def recent_badges_def predictions_block_def nullish_def)

text \<open>
  Claim C7. For every authenticated user whose role is neither teacher nor admin, the
  teacher analytics page (dashboard and at-risk list) renders the Access Denied view,
  also behind its route; the dashboard with its data is rendered only for a user whose
  role is teacher or admin.
\<close>

theorem teacher_views_gated_by_role:
  "(role x \<noteq> ''teacher'' \<and> role x \<noteq> ''admin'' \<longrightarrow>
      TeacherAnalytics (AuthProvider_value (Some x) al) ld dashboard atRisk = AccessDenied \<and>
      analytics_route (AuthProvider_value (Some x) al) loc ld dashboard atRisk =
        (if al then LoadingScreen else Children AccessDenied)) \<and>
   (TeacherAnalytics (AuthProvider_value u al) ld dashboard atRisk = TeacherDashboard d r \<longrightarrow>
      (\<exists>y. u = Some y \<and> (role y = ''teacher'' \<or> role y = ''admin''))) \<and>
   (analytics_route (AuthProvider_value u al) loc ld dashboard atRisk = Children (TeacherDashboard d r) \<longrightarrow>
      (\<exists>y. u = Some y \<and> (role y = ''teacher'' \<or> role y = ''admin'')))"
  by (cases u)
     (auto simp add: TeacherAnalytics_def analytics_route_def ProtectedRoute_def
        AuthProvider_value_def optional_role_def truthy_string_def split: if_splits)

text \<open>A student is denied; a teacher sees the dashboard and the at-risk list.\<close>

theorem teacher_views_gated_by_role_witness:
  "TeacherAnalytics (AuthProvider_value (Some \<lparr>id' = ''u1'', role = ''student''\<rparr>) False)
      False (Some (5::nat)) [''u2''] = AccessDenied \<and>
   analytics_route (AuthProvider_value (Some \<lparr>id' = ''u1'', role = ''student''\<rparr>) False)
      ''/analytics'' False (Some (5::nat)) [''u2''] = Children AccessDenied \<and>
   TeacherAnalytics (AuthProvider_value (Some \<lparr>id' = ''t1'', role = ''teacher''\<rparr>) False)
      False (Some (5::nat)) [''u2''] = TeacherDashboard (Some 5) [''u2'']"
  using teacher_views_gated_by_role
    [of "\<lparr>id' = ''u1'', role = ''student''\<rparr>" False False "Some (5::nat)" "[''u2'']" "''/analytics''"
        "Some \<lparr>id' = ''t1'', role = ''teacher''\<rparr>" "Some 5" "[''u2'']"]
  by (simp add: TeacherAnalytics_def AuthProvider_value_def optional_role_def)

lemma find_None_conv: "(find P xs = None) = (\<not> list_ex P xs)"
  by (induction xs) auto

lemma numbered_nth:
  "i < length es \<Longrightarrow> numbered es ! i = (i + 1, es ! i)"
  by (simp add: numbered_def)

lemma listed_row:
  assumes "list_ex P es"
    and "list_all (\<lambda>(n, e). if P e then Q n else True) (numbered es)"
  shows "\<exists>n. 1 \<le> n \<and> n \<le> length es \<and> Q n"
proof -
  from assms(1) obtain i where i: "i < length es" "P (es ! i)"
    by (auto simp add: list_ex_iff in_set_conv_nth)
  have len: "length (numbered es) = length es" by (simp add: numbered_def)
  from assms(2) i len have "case numbered es ! i of (n, e) \<Rightarrow> if P e then Q n else True"
    by (simp add: list_all_length)
  with i have "Q (i + 1)" by (simp add: numbered_nth)
  with i show ?thesis by (intro exI [of _ "i + 1"]) simp
qed

lemma listed_no_position_row:
  assumes "list_ex (\<lambda>e. isCurrentUser u (streak_user_id e)) (entries_of (Some l))"
    and "top_ten_answer u l"
  shows "your_position (Some l) = NoPositionRow"
proof -
  from assms obtain n where n: "1 \<le> n" "n \<le> length (entries_of (Some l))" "user_rank l = Some (int n)"
    using listed_row [of "\<lambda>e. isCurrentUser u (streak_user_id e)" "entries_of (Some l)"
        "\<lambda>n. user_rank l = Some (int n)"]
    by (auto simp add: top_ten_answer_def)
  from assms(2) n have "n \<le> 10" by (simp add: top_ten_answer_def)
  with n show ?thesis by (simp add: your_position_def)
qed

text \<open>
  Claim C8. In the Leaderboard component the "Your Position" section shows \<open>my_rank\<close>
  (its rank and the other fields) whenever \<open>my_rank\<close> is present and the user is not
  among the fetched entries, and is absent whenever the user is among them. In the
  Progress Dashboard the position row shows \<open>user_rank\<close> whenever it is greater than 10,
  and only then; and when the user is among the displayed entries of a top-10 answer,
  where \<open>user_rank\<close> is the number of the user's row, no position row is shown.
\<close>

theorem position_rows:
  "(myRank = Some m \<and> \<not> list_ex (\<lambda>e. isCurrentUser u (entry_user_id e)) leaderboard \<longrightarrow>
      snd (Leaderboard_render u leaderboard myRank ld) = Some m) \<and>
   (list_ex (\<lambda>e. isCurrentUser u (entry_user_id e)) leaderboard \<longrightarrow>
      snd (Leaderboard_render u leaderboard myRank ld) = None) \<and>
   (user_rank l = Some r \<and> r > 10 \<longrightarrow>
      ProgressDashboard u False ''leaderboard'' summary (Some l) badges analytics random =
        ProgressPage summary
          (LeaderboardTab (leaderboard_rows u (entries_of (Some l)))
             (YourPosition r (total_participants l)))) \<and>
   (list_ex (\<lambda>e. isCurrentUser u (streak_user_id e)) (entries_of (Some l)) \<and> top_ten_answer u l \<longrightarrow>
      ProgressDashboard u False ''leaderboard'' summary (Some l) badges analytics random =
        ProgressPage summary
          (LeaderboardTab (leaderboard_rows u (entries_of (Some l))) NoPositionRow)) \<and>
   (your_position lb = YourPosition r' t \<longrightarrow>
      (\<exists>l'. lb = Some l' \<and> user_rank l' = Some r' \<and> r' > 10 \<and> t = total_participants l'))"
proof -
  have listed:
    "list_ex (\<lambda>e. isCurrentUser u (streak_user_id e)) (entries_of (Some l)) \<and> top_ten_answer u l \<longrightarrow>
      ProgressDashboard u False ''leaderboard'' summary (Some l) badges analytics random =
        ProgressPage summary
          (LeaderboardTab (leaderboard_rows u (entries_of (Some l))) NoPositionRow)"
    using listed_no_position_row [of u l] by (auto simp add: ProgressDashboard_def)
  have rest:
    "(myRank = Some m \<and> \<not> list_ex (\<lambda>e. isCurrentUser u (entry_user_id e)) leaderboard \<longrightarrow>
      snd (Leaderboard_render u leaderboard myRank ld) = Some m) \<and>
   (list_ex (\<lambda>e. isCurrentUser u (entry_user_id e)) leaderboard \<longrightarrow>
      snd (Leaderboard_render u leaderboard myRank ld) = None) \<and>
   (user_rank l = Some r \<and> r > 10 \<longrightarrow>
      ProgressDashboard u False ''leaderboard'' summary (Some l) badges analytics random =
        ProgressPage summary
          (LeaderboardTab (leaderboard_rows u (entries_of (Some l)))
             (YourPosition r (total_participants l)))) \<and>
   (your_position lb = YourPosition r' t \<longrightarrow>
      (\<exists>l'. lb = Some l' \<and> user_rank l' = Some r' \<and> r' > 10 \<and> t = total_participants l'))"
    by (auto simp add: Leaderboard_render_def my_rank_section_def find_None_conv
        ProgressDashboard_def your_position_def split: option.splits if_splits)
  from listed rest show ?thesis by blast
qed

text \<open>
  A user outside the list with rank 14 gets the section in both components; a listed
  user gets none, in the Leaderboard component and in the Progress Dashboard (second of
  two rows, \<open>user_rank = 2\<close>).
\<close>

theorem position_rows_witness:
  "snd (Leaderboard_render (Some \<lparr>id' = ''u1'', role = ''student''\<rparr>)
          [\<lparr>entry_user_id = ''u2'', entry_rank = 1, entry_user_name = ''Bob'', entry_current_streak = 4,
            entry_activities_count = 9, entry_total_points = 120\<rparr>]
          (Some \<lparr>my_rank_rank = 14, my_rank_user_name = ''Ann'', my_rank_current_streak = 1,
                 my_rank_total_points = 10\<rparr>) False) =
     Some \<lparr>my_rank_rank = 14, my_rank_user_name = ''Ann'', my_rank_current_streak = 1,
            my_rank_total_points = 10\<rparr> \<and>
   snd (Leaderboard_render (Some \<lparr>id' = ''u2'', role = ''student''\<rparr>)
          [\<lparr>entry_user_id = ''u2'', entry_rank = 1, entry_user_name = ''Bob'', entry_current_streak = 4,
            entry_activities_count = 9, entry_total_points = 120\<rparr>]
          (Some \<lparr>my_rank_rank = 1, my_rank_user_name = ''Bob'', my_rank_current_streak = 4,
                 my_rank_total_points = 120\<rparr>) False) = None \<and>
   ProgressDashboard (Some \<lparr>id' = ''u1'', role = ''student''\<rparr>) False ''leaderboard'' JNull
     (Some \<lparr>entries = Some [], user_rank = Some 14, total_participants = Some 20\<rparr>) [] JNull (\<lambda>i. 0) =
     ProgressPage JNull (LeaderboardTab [] (YourPosition 14 (Some 20))) \<and>
   ProgressDashboard (Some \<lparr>id' = ''u1'', role = ''student''\<rparr>) False ''leaderboard'' JNull
     (Some \<lparr>entries = Some
               [\<lparr>streak_user_id = ''u2'', streak_user_name = ''Bob'', score = 7, secondary_score = 9\<rparr>,
                \<lparr>streak_user_id = ''u1'', streak_user_name = ''Ann'', score = 3, secondary_score = 5\<rparr>],
            user_rank = Some 2, total_participants = Some 20\<rparr>) [] JNull (\<lambda>i. 0) =
     ProgressPage JNull
       (LeaderboardTab
          [(1, \<lparr>streak_user_id = ''u2'', streak_user_name = ''Bob'', score = 7, secondary_score = 9\<rparr>, False),
           (2, \<lparr>streak_user_id = ''u1'', streak_user_name = ''Ann'', score = 3, secondary_score = 5\<rparr>, True)]
          NoPositionRow)"
  using position_rows
      [of "Some \<lparr>my_rank_rank = 14, my_rank_user_name = ''Ann'', my_rank_current_streak = 1,
                 my_rank_total_points = 10\<rparr>"
          "\<lparr>my_rank_rank = 14, my_rank_user_name = ''Ann'', my_rank_current_streak = 1,
                 my_rank_total_points = 10\<rparr>"
          "Some \<lparr>id' = ''u1'', role = ''student''\<rparr>"
          "[\<lparr>entry_user_id = ''u2'', entry_rank = 1, entry_user_name = ''Bob'', entry_current_streak = 4,
            entry_activities_count = 9, entry_total_points = 120\<rparr>]"
          False
          "\<lparr>entries = Some [], user_rank = Some 14, total_participants = Some 20\<rparr>" 14
          JNull "[]" JNull "\<lambda>i. 0"]
    position_rows
      [of "Some \<lparr>my_rank_rank = 1, my_rank_user_name = ''Bob'', my_rank_current_streak = 4,
                 my_rank_total_points = 120\<rparr>"
          "\<lparr>my_rank_rank = 1, my_rank_user_name = ''Bob'', my_rank_current_streak = 4,
                 my_rank_total_points = 120\<rparr>"
          "Some \<lparr>id' = ''u2'', role = ''student''\<rparr>"
          "[\<lparr>entry_user_id = ''u2'', entry_rank = 1, entry_user_name = ''Bob'', entry_current_streak = 4,
            entry_activities_count = 9, entry_total_points = 120\<rparr>]"
          False]
    position_rows
      [of _ _ "Some \<lparr>id' = ''u1'', role = ''student''\<rparr>" _ _
          "\<lparr>entries = Some
               [\<lparr>streak_user_id = ''u2'', streak_user_name = ''Bob'', score = 7, secondary_score = 9\<rparr>,
                \<lparr>streak_user_id = ''u1'', streak_user_name = ''Ann'', score = 3, secondary_score = 5\<rparr>],
            user_rank = Some 2, total_participants = Some 20\<rparr>" _
          JNull "[]" JNull "\<lambda>i. 0"]
  by (simp add: isCurrentUser_def leaderboard_rows_def numbered_def entries_of_def top_ten_answer_def)

text \<open>
  Claim C9. In every state of the auth context at most one of \<open>isAdmin\<close>, \<open>isTeacher\<close>,
  \<open>isStudent\<close> is true; exactly one is true when the user's role is \<open>admin\<close>, \<open>teacher\<close> or
  \<open>student\<close>; all three are false when the user is \<open>null\<close>; and \<open>isAuthenticated\<close> is true
  if and only if the user is not \<open>null\<close>.
\<close>

theorem auth_flags_exclusive:
  "role_flags_set (AuthProvider_value u l) \<le> 1 \<and>
   (optional_role u = Some ''admin'' \<or> optional_role u = Some ''teacher'' \<or>
      optional_role u = Some ''student'' \<longrightarrow> role_flags_set (AuthProvider_value u l) = 1) \<and>
   (u = None \<longrightarrow>
      \<not> isAdmin (AuthProvider_value u l) \<and> \<not> isTeacher (AuthProvider_value u l) \<and>
      \<not> isStudent (AuthProvider_value u l)) \<and>
   (isAuthenticated (AuthProvider_value u l) \<longleftrightarrow> u \<noteq> None)"
  by (auto simp add: AuthProvider_value_def role_flags_set_def optional_role_def)

text \<open>A teacher sets exactly one flag and is authenticated; no user sets none and is not.\<close>

theorem auth_flags_exclusive_witness:
  "role_flags_set (AuthProvider_value (Some \<lparr>id' = ''u1'', role = ''teacher''\<rparr>) False) = 1 \<and>
   isAuthenticated (AuthProvider_value (Some \<lparr>id' = ''u1'', role = ''teacher''\<rparr>) False) \<and>
   role_flags_set (AuthProvider_value None False) = 0 \<and>
   \<not> isAuthenticated (AuthProvider_value None False)"
  using auth_flags_exclusive [of "Some \<lparr>id' = ''u1'', role = ''teacher''\<rparr>" False]
    auth_flags_exclusive [of None False]
  by (simp add: optional_role_def role_flags_set_def)

text \<open>
  Claim C10. Once loading is false: an unauthenticated user gets the redirect to
  \<open>/login\<close> and never the children; when a \<open>requiredRole\<close> is specified (a non-empty
  string, which is how the guard \<open>requiredRole && ...\<close> under the comment "Check role
  requirement if specified" reads it) and an authenticated user's role differs from it,
  the component renders the redirect to \<open>/dashboard\<close>; the children are rendered only for
  an authenticated user who meets the role requirement, if one is specified.
\<close>

theorem ProtectedRoute_gate:
  "\<not> loading ctx \<Longrightarrow>
   (\<not> isAuthenticated ctx \<longrightarrow>
      ProtectedRoute ctx loc requiredRole page = Navigate ''/login'' (Some loc) \<and>
      ProtectedRoute ctx loc requiredRole page \<noteq> Children page) \<and>
   (isAuthenticated ctx \<and> requiredRole = Some r \<and> r \<noteq> [] \<and> optional_role (user ctx) \<noteq> Some r \<longrightarrow>
      ProtectedRoute ctx loc requiredRole page = Navigate ''/dashboard'' None) \<and>
   (ProtectedRoute ctx loc requiredRole page = Children c \<longrightarrow>
      c = page \<and> isAuthenticated ctx \<and>
      (requiredRole = None \<or> requiredRole = Some [] \<or> optional_role (user ctx) = requiredRole))"
  by (auto simp add: ProtectedRoute_def truthy_string_def split: option.splits if_splits)

text \<open>
  On the \<open>/admin/users\<close> route: no user is sent to \<open>/login\<close>, a student to \<open>/dashboard\<close>,
  and an admin sees the page.
\<close>

theorem ProtectedRoute_gate_witness:
  "ProtectedRoute (AuthProvider_value None False) ''/admin/users'' (Some ''admin'') ''page'' =
     Navigate ''/login'' (Some ''/admin/users'') \<and>
   admin_users_route (AuthProvider_value (Some \<lparr>id' = ''u1'', role = ''student''\<rparr>) False)
     ''/admin/users'' ''page'' = Navigate ''/dashboard'' None \<and>
   admin_users_route (AuthProvider_value (Some \<lparr>id' = ''a1'', role = ''admin''\<rparr>) False)
     ''/admin/users'' ''page'' = Children ''page''"
  using ProtectedRoute_gate
      [of "AuthProvider_value None False" "''/admin/users''" "Some ''admin''" "''page''" "''admin''" "''page''"]
    ProtectedRoute_gate
      [of "AuthProvider_value (Some \<lparr>id' = ''u1'', role = ''student''\<rparr>) False"
          "''/admin/users''" "Some ''admin''" "''page''" "''admin''" "''page''"]
    ProtectedRoute_gate
      [of "AuthProvider_value (Some \<lparr>id' = ''a1'', role = ''admin''\<rparr>) False"
          "''/admin/users''" "Some ''admin''" "''page''" "''admin''" "''page''"]
  by (simp add: AuthProvider_value_def optional_role_def admin_users_route_def ProtectedRoute_def
      truthy_string_def)


section \<open>Properties of the PMSAS core\<close>

subsection \<open>The streak tracker\<close>

lemma recordActivity_on_last:
  "\<exists>l'. last_active_date (recordActivity_on d s) = Some l' \<and> d \<le> l'"
  by (cases "last_active_date s") (auto simp add: recordActivity_on_def update_longest_def)

lemma recordActivity_on_noop:
  "last_active_date s = Some l \<Longrightarrow> d \<le> l \<Longrightarrow> recordActivity_on d s = s"
  by (simp add: recordActivity_on_def)

lemma recordActivity_on_longest_mono:
  "longest_streak s \<le> longest_streak (recordActivity_on d s)"
  by (cases "last_active_date s") (auto simp add: recordActivity_on_def update_longest_def)

lemma recordActivity_on_invariant:
  "current_streak s \<le> longest_streak s \<Longrightarrow>
   current_streak (recordActivity_on d s) \<le> longest_streak (recordActivity_on d s)"
  by (cases "last_active_date s") (auto simp add: recordActivity_on_def update_longest_def)

lemma useStreakFreeze_streaks:
  "useStreakFreeze today s = Inr s' \<Longrightarrow>
   current_streak s' = current_streak s \<and> longest_streak s' = longest_streak s \<and>
   last_active_date s' = last_active_date s \<and> total_active_days s' = total_active_days s"
  by (auto simp add: useStreakFreeze_def split: if_splits)

subsection \<open>The badge engine\<close>

lemma award_each_streak_state:
  "streak_state (award_each bs snapshot now s) = streak_state s"
  by (induction bs arbitrary: s) (auto simp add: awardPoints_def)

lemma award_each_distinct:
  "distinct (map fst (earned_badges s)) \<Longrightarrow>
   distinct (map fst (earned_badges (award_each bs snapshot now s)))"
  by (induction bs arbitrary: s) (auto simp add: awardPoints_def)

lemma award_each_keeps:
  "set (earned_badges s) \<subseteq> set (earned_badges (award_each bs snapshot now s))"
proof (induction bs arbitrary: s)
  case Nil
  then show ?case by simp
next
  case (Cons b bs)
  let ?s' = "(if badge_type b \<in> set (map fst (earned_badges s)) then s
        else if criteria b (streak_state snapshot) (total_points snapshot) (activity_log snapshot)
        then (case awardPoints (int (points_value b)) (total_points s) of
                Inl e \<Rightarrow> s
              | Inr t \<Rightarrow> s\<lparr>earned_badges := earned_badges s @ [(badge_type b, now)],
                           total_points := t\<rparr>)
        else s)"
  have "set (earned_badges s) \<subseteq> set (earned_badges ?s')"
    by (auto simp add: awardPoints_def)
  also have "\<dots> \<subseteq> set (earned_badges (award_each bs snapshot now ?s'))"
    by (rule Cons.IH)
  finally show ?case by simp
qed

lemma value_of_member:
  "distinct (map badge_type catalog) \<Longrightarrow> b \<in> set catalog \<Longrightarrow>
   value_of catalog (badge_type b) = points_value b"
proof (induction catalog)
  case Nil
  then show ?case by simp
next
  case (Cons c cs)
  then show ?case
    by (cases "badge_type c = badge_type b") (auto simp add: value_of_def rev_image_eqI)
qed

lemma badge_points_append:
  "badge_points catalog (xs @ ys) = badge_points catalog xs + badge_points catalog ys"
  by (simp add: badge_points_def)

text \<open>
  One evaluation adds to the point total exactly the values of the rows it inserts.
\<close>

lemma award_each_points:
  "distinct (map badge_type catalog) \<Longrightarrow> set bs \<subseteq> set catalog \<Longrightarrow>
   total_points (award_each bs snapshot now s) + badge_points catalog (earned_badges s) =
   total_points s + badge_points catalog (earned_badges (award_each bs snapshot now s))"
proof (induction bs arbitrary: s)
  case Nil
  then show ?case by simp
next
  case (Cons b bs)
  let ?s' = "(if badge_type b \<in> set (map fst (earned_badges s)) then s
        else if criteria b (streak_state snapshot) (total_points snapshot) (activity_log snapshot)
        then (case awardPoints (int (points_value b)) (total_points s) of
                Inl e \<Rightarrow> s
              | Inr t \<Rightarrow> s\<lparr>earned_badges := earned_badges s @ [(badge_type b, now)],
                           total_points := t\<rparr>)
        else s)"
  from Cons.prems have b: "value_of catalog (badge_type b) = points_value b"
    by (simp add: value_of_member)
  have one: "total_points ?s' + badge_points catalog (earned_badges s) =
      total_points s + badge_points catalog (earned_badges ?s')"
    using b by (simp add: awardPoints_def badge_points_append) (simp add: badge_points_def)
  from Cons.prems have "set bs \<subseteq> set catalog" by simp
  with Cons.prems(1) have rest:
    "total_points (award_each bs snapshot now ?s') + badge_points catalog (earned_badges ?s') =
      total_points ?s' + badge_points catalog (earned_badges (award_each bs snapshot now ?s'))"
    by (rule Cons.IH)
  have "award_each (b # bs) snapshot now s = award_each bs snapshot now ?s'" by simp
  with one rest show ?case by presburger
qed

subsection \<open>Operations, steps and runs\<close>

lemma apply_operation_last_active:
  "apply_operation date catalog op s = Inr s' \<Longrightarrow> \<not> records_activity_for u (u, op) \<Longrightarrow>
   last_active_date (streak_state s') = last_active_date (streak_state s)"
  by (cases op)
     (auto simp add: evaluateBadges_def award_each_streak_state useStreakFreeze_def
        split: sum.splits if_splits)

lemma step_other_user: "fst uo \<noteq> u \<Longrightarrow> step date catalog uo store u = store u"
  by (simp add: step_def split: sum.splits)

lemma step_same_user:
  "step date catalog (u, op) store u =
     (case apply_operation date catalog op (store u) of Inl e \<Rightarrow> store u | Inr s' \<Rightarrow> s')"
  by (simp add: step_def split: sum.splits)

lemma run_Cons: "run date catalog (uo # ops) store = run date catalog ops (step date catalog uo store)"
  by (simp add: run_def)

lemma run_snoc: "run date catalog (ops @ [uo]) store = step date catalog uo (run date catalog ops store)"
  by (simp add: run_def)

lemma step_last_active:
  "\<not> records_activity_for u uo \<Longrightarrow>
   last_active_date (streak_state (step date catalog uo store u)) =
   last_active_date (streak_state (store u))"
proof (cases "fst uo = u")
  case False
  then show ?thesis by (simp add: step_other_user)
next
  case True
  assume n: "\<not> records_activity_for u uo"
  obtain op where uo: "uo = (u, op)" using True by (cases uo) auto
  show ?thesis
    using n apply_operation_last_active [of date catalog op "store u" _ u]
    by (auto simp add: uo step_same_user split: sum.splits)
qed

lemma run_last_active:
  "list_all (\<lambda>uo. \<not> records_activity_for u uo) ops \<Longrightarrow>
   last_active_date (streak_state (run date catalog ops store u)) =
   last_active_date (streak_state (store u))"
  by (induction ops arbitrary: store) (simp_all add: run_def step_last_active)

text \<open>
  Claim C3. After \<open>recordActivity\<close> for a user with a timestamp on some calendar day, a
  second \<open>recordActivity\<close> for the same user with a timestamp on the same day (under any
  timezone policy \<open>date\<close>) changes nothing: the whole store, and with it \<open>current_streak\<close>
  and \<open>total_active_days\<close>, is what the first call left. Between the two calls any
  operations may run that are not activity recordings of this user (freeze uses, badge
  evaluations, point awards, and anything for other users).
\<close>

theorem recordActivity_same_day_idempotent:
  assumes same: "date t2 = date t1"
    and between: "list_all (\<lambda>uo. \<not> records_activity_for u uo) between"
  shows "run date catalog ((u, RecordActivity t1) # between @ [(u, RecordActivity t2)]) store =
           run date catalog ((u, RecordActivity t1) # between) store \<and>
         current_streak (streak_state
             (run date catalog ((u, RecordActivity t1) # between @ [(u, RecordActivity t2)]) store u)) =
           current_streak (streak_state (run date catalog ((u, RecordActivity t1) # between) store u)) \<and>
         total_active_days (streak_state
             (run date catalog ((u, RecordActivity t1) # between @ [(u, RecordActivity t2)]) store u)) =
           total_active_days (streak_state (run date catalog ((u, RecordActivity t1) # between) store u))"
proof -
  let ?first = "step date catalog (u, RecordActivity t1) store"
  let ?before = "run date catalog ((u, RecordActivity t1) # between) store"
  have "streak_state (?first u) = recordActivity_on (date t1) (streak_state (store u))"
    by (simp add: step_same_user recordActivity_def)
  then obtain l where l: "last_active_date (streak_state (?first u)) = Some l" "date t1 \<le> l"
    using recordActivity_on_last [of "date t1" "streak_state (store u)"] by auto
  have "?before = run date catalog between ?first" by (simp add: run_Cons)
  with between l have "last_active_date (streak_state (?before u)) = Some l"
    by (simp add: run_last_active)
  with l same have "recordActivity_on (date t2) (streak_state (?before u)) = streak_state (?before u)"
    by (simp add: recordActivity_on_noop)
  then have "step date catalog (u, RecordActivity t2) ?before = ?before"
    by (simp add: step_def recordActivity_def)
  moreover have "run date catalog ((u, RecordActivity t1) # between @ [(u, RecordActivity t2)]) store =
      step date catalog (u, RecordActivity t2) ?before"
    using run_snoc [of date catalog "(u, RecordActivity t1) # between"] by simp
  ultimately show ?thesis by simp
qed

text \<open>
  Two timestamps of the same UTC day, with a freeze use and another user's activity in
  between: the new user's streak and active days are 1 after both calls.
\<close>

theorem recordActivity_same_day_idempotent_witness:
  "utc_day 90000 = utc_day 100000 \<and>
   current_streak (streak_state
     (run utc_day [] [(''u1'', RecordActivity 100000), (''u1'', UseStreakFreeze 100500),
                      (''u2'', RecordActivity 200000), (''u1'', RecordActivity 90000)]
        (\<lambda>u. new_user 1) ''u1'')) = 1 \<and>
   total_active_days (streak_state
     (run utc_day [] [(''u1'', RecordActivity 100000), (''u1'', UseStreakFreeze 100500),
                      (''u2'', RecordActivity 200000), (''u1'', RecordActivity 90000)]
        (\<lambda>u. new_user 1) ''u1'')) = 1"
  using recordActivity_same_day_idempotent
    [of utc_day 90000 100000 "''u1''" "[(''u1'', UseStreakFreeze 100500), (''u2'', RecordActivity 200000)]"
        "[]" "\<lambda>u. new_user 1"]
  by (simp add: utc_day_def run_def step_def recordActivity_def recordActivity_on_def
      update_longest_def new_user_def useStreakFreeze_def streak_at_risk_def)

lemma apply_operation_longest:
  "apply_operation date catalog op s = Inr s' \<Longrightarrow>
   longest_streak (streak_state s) \<le> longest_streak (streak_state s') \<and>
   (current_streak (streak_state s) \<le> longest_streak (streak_state s) \<longrightarrow>
    current_streak (streak_state s') \<le> longest_streak (streak_state s'))"
  by (cases op)
     (auto simp add: recordActivity_def recordActivity_on_longest_mono recordActivity_on_invariant
        evaluateBadges_def award_each_streak_state
        dest: useStreakFreeze_streaks split: sum.splits)

lemma step_longest:
  "longest_streak (streak_state (store u)) \<le> longest_streak (streak_state (step date catalog uo store u)) \<and>
   (current_streak (streak_state (store u)) \<le> longest_streak (streak_state (store u)) \<longrightarrow>
    current_streak (streak_state (step date catalog uo store u)) \<le>
      longest_streak (streak_state (step date catalog uo store u)))"
proof (cases "fst uo = u")
  case False
  then show ?thesis by (simp add: step_other_user)
next
  case True
  then obtain op where uo: "uo = (u, op)" by (cases uo) auto
  show ?thesis
    using apply_operation_longest [of date catalog op "store u"]
    by (auto simp add: uo step_same_user split: sum.splits)
qed

lemma run_longest:
  "longest_streak (streak_state (store u)) \<le> longest_streak (streak_state (run date catalog ops store u)) \<and>
   (current_streak (streak_state (store u)) \<le> longest_streak (streak_state (store u)) \<longrightarrow>
    current_streak (streak_state (run date catalog ops store u)) \<le>
      longest_streak (streak_state (run date catalog ops store u)))"
proof (induction ops arbitrary: store)
  case Nil
  show ?case by (simp add: run_def)
next
  case (Cons uo ops)
  show ?case
    using Cons.IH [of "step date catalog uo store"] step_longest [of store u date catalog uo]
    by (auto simp add: run_Cons)
qed

text \<open>
  Claim C4. For every user and every run of operations (activity recordings, freeze
  uses, badge evaluations, point awards, for any users), the user's \<open>longest_streak\<close>
  after the run is at least what it was before; from a state with
  \<open>current_streak \<le> longest_streak\<close> the run ends with
  \<open>longest_streak = max(longest_streak, current_streak)\<close>, that is with
  \<open>longest_streak \<ge> current_streak\<close>; this holds in particular after every run from new
  users; and each \<open>recordActivity\<close> from such a state leaves \<open>longest_streak\<close> at the
  maximum of its old value and the new \<open>current_streak\<close>.
\<close>

theorem longest_streak_never_decreases:
  "longest_streak (streak_state (store u)) \<le>
     longest_streak (streak_state (run date catalog ops store u)) \<and>
   (current_streak (streak_state (store u)) \<le> longest_streak (streak_state (store u)) \<longrightarrow>
      longest_streak (streak_state (run date catalog ops store u)) =
        max (longest_streak (streak_state (run date catalog ops store u)))
            (current_streak (streak_state (run date catalog ops store u))) \<and>
      current_streak (streak_state (run date catalog ops store u)) \<le>
        longest_streak (streak_state (run date catalog ops store u))) \<and>
   current_streak (streak_state (run date catalog ops (\<lambda>v. new_user (n v)) u)) \<le>
     longest_streak (streak_state (run date catalog ops (\<lambda>v. new_user (n v)) u)) \<and>
   (current_streak s \<le> longest_streak s \<longrightarrow>
      longest_streak (recordActivity date ts s) =
        max (longest_streak s) (current_streak (recordActivity date ts s)))"
proof -
  have update: "current_streak s \<le> longest_streak s \<longrightarrow>
      longest_streak (recordActivity date ts s) =
        max (longest_streak s) (current_streak (recordActivity date ts s))"
    by (cases "last_active_date s")
       (auto simp add: recordActivity_def recordActivity_on_def update_longest_def)
  have fresh: "current_streak (streak_state (run date catalog ops (\<lambda>v. new_user (n v)) u)) \<le>
     longest_streak (streak_state (run date catalog ops (\<lambda>v. new_user (n v)) u))"
    using run_longest [of "\<lambda>v. new_user (n v)" u date catalog ops] by (simp add: new_user_def)
  from update fresh run_longest [of store u date catalog ops] show ?thesis
    by (auto simp add: max_def)
qed

text \<open>
  The scenario of the specification: activity on days 1, 2 and 3, none on day 4, activity
  on day 5 without a freeze gives \<open>current_streak = 1\<close> and \<open>longest_streak = 3\<close>.
\<close>

theorem longest_streak_never_decreases_witness:
  "current_streak (streak_state
     (run utc_day [] [(''u1'', RecordActivity 86400), (''u1'', RecordActivity 172800),
                      (''u1'', RecordActivity 259200), (''u1'', RecordActivity 432000)]
        (\<lambda>u. new_user 0) ''u1'')) = 1 \<and>
   longest_streak (streak_state
     (run utc_day [] [(''u1'', RecordActivity 86400), (''u1'', RecordActivity 172800),
                      (''u1'', RecordActivity 259200), (''u1'', RecordActivity 432000)]
        (\<lambda>u. new_user 0) ''u1'')) = 3 \<and>
   longest_streak (recordActivity utc_day 86400 (streak_state (new_user 0))) = 1"
  using longest_streak_never_decreases
    [of "\<lambda>u. new_user 0" "''u1''" utc_day "[]"
        "[(''u1'', RecordActivity 86400), (''u1'', RecordActivity 172800),
          (''u1'', RecordActivity 259200), (''u1'', RecordActivity 432000)]"
        "\<lambda>v. 0" "streak_state (new_user 0)" 86400]
  by (simp add: utc_day_def run_def step_def recordActivity_def recordActivity_on_def
      update_longest_def new_user_def gap_covered_def skipped_days_def)

lemma apply_operation_earned:
  "apply_operation date catalog op s = Inr s' \<Longrightarrow>
   (distinct (map fst (earned_badges s)) \<longrightarrow> distinct (map fst (earned_badges s'))) \<and>
   set (earned_badges s) \<subseteq> set (earned_badges s')"
proof (cases op)
  case (EvaluateBadges now)
  assume "apply_operation date catalog op s = Inr s'"
  with EvaluateBadges show ?thesis
    using award_each_keeps [of s catalog s now]
    by (auto simp add: evaluateBadges_def award_each_distinct)
qed (auto split: sum.splits)

lemma step_earned:
  "(distinct (map fst (earned_badges (store u))) \<longrightarrow>
      distinct (map fst (earned_badges (step date catalog uo store u)))) \<and>
   set (earned_badges (store u)) \<subseteq> set (earned_badges (step date catalog uo store u))"
proof (cases "fst uo = u")
  case False
  then show ?thesis by (simp add: step_other_user)
next
  case True
  then obtain op where uo: "uo = (u, op)" by (cases uo) auto
  show ?thesis
    using apply_operation_earned [of date catalog op "store u"]
    by (cases "apply_operation date catalog op (store u)") (simp_all add: uo step_same_user)
qed

lemma run_earned:
  "(distinct (map fst (earned_badges (store u))) \<longrightarrow>
      distinct (map fst (earned_badges (run date catalog ops store u)))) \<and>
   set (earned_badges (store u)) \<subseteq> set (earned_badges (run date catalog ops store u))"
proof (induction ops arbitrary: store)
  case Nil
  show ?case by (simp add: run_def)
next
  case (Cons uo ops)
  show ?case
    using Cons.IH [of "step date catalog uo store"] step_earned [of store u date catalog uo]
    by (simp add: run_Cons) (meson subset_trans)
qed

lemma apply_operation_points:
  assumes "apply_operation date catalog op s = Inr s'"
    and "distinct (map badge_type catalog)"
  shows "total_points s' + badge_points catalog (earned_badges s) =
           total_points s + awarded_directly u [(u, op)] + badge_points catalog (earned_badges s')"
proof (cases op)
  case (EvaluateBadges now)
  with assms show ?thesis
    using award_each_points [of catalog catalog s now s]
    by (auto simp add: evaluateBadges_def)
next
  case (AwardPoints amount)
  with assms show ?thesis
    by (auto simp add: awardPoints_def split: if_splits)
qed (use assms in \<open>auto split: sum.splits\<close>)

lemma awarded_directly_Cons:
  "awarded_directly u ((v, op) # ops) =
     (if v = u then awarded_directly u [(u, op)] else 0) + awarded_directly u ops"
  by (cases op) auto

lemma awarded_directly_failed:
  "apply_operation date catalog op s = Inl e \<Longrightarrow> awarded_directly u [(u, op)] = 0"
  by (cases op) (auto simp add: awardPoints_def split: sum.splits if_splits)

lemma step_points:
  assumes "distinct (map badge_type catalog)"
  shows "total_points (step date catalog uo store u) + badge_points catalog (earned_badges (store u)) =
           total_points (store u) + awarded_directly u [uo] +
           badge_points catalog (earned_badges (step date catalog uo store u))"
proof (cases "fst uo = u")
  case False
  then have "awarded_directly u [uo] = 0"
    using awarded_directly_Cons [of u "fst uo" "snd uo" "[]"] by simp
  with False show ?thesis by (simp add: step_other_user)
next
  case True
  then obtain op where uo: "uo = (u, op)" by (cases uo) auto
  show ?thesis
  proof (cases "apply_operation date catalog op (store u)")
    case (Inl e)
    then show ?thesis
      using awarded_directly_failed [of date catalog op "store u" e u]
      by (simp add: uo step_same_user)
  next
    case (Inr s')
    then show ?thesis
      using apply_operation_points [of date catalog op "store u" s' u] assms
      by (simp add: uo step_same_user)
  qed
qed

lemma run_points:
  assumes catalog: "distinct (map badge_type catalog)"
  shows "total_points (run date catalog ops store u) + badge_points catalog (earned_badges (store u)) =
           total_points (store u) + awarded_directly u ops +
           badge_points catalog (earned_badges (run date catalog ops store u))"
proof (induction ops arbitrary: store)
  case Nil
  show ?case by (simp add: run_def)
next
  case (Cons uo ops)
  let ?next = "step date catalog uo store"
  have one: "total_points (?next u) + badge_points catalog (earned_badges (store u)) =
           total_points (store u) + awarded_directly u [uo] +
           badge_points catalog (earned_badges (?next u))"
    using catalog by (rule step_points)
  note rest = Cons.IH [of ?next]
  have split: "awarded_directly u (uo # ops) = awarded_directly u [uo] + awarded_directly u ops"
    using awarded_directly_Cons [of u "fst uo" "snd uo" ops]
      awarded_directly_Cons [of u "fst uo" "snd uo" "[]"] by simp
  from one rest split show ?case
    by (simp add: run_Cons)
qed

text \<open>
  Claim C5. A user who has at most one EarnedBadge row per badge type keeps that through
  every run of operations, however often the run evaluates badges, and no row is ever
  removed. With a catalog whose badge types are unique, the run moves the point total
  by the points awarded directly plus the points value of each newly inserted row, so
  each earned badge is counted exactly once. Concurrent evaluations for one user are
  serialised (section 5 of the specification), so they are runs in some order.
\<close>

theorem badges_awarded_once:
  assumes rows: "distinct (map fst (earned_badges (store u)))"
  shows "distinct (map fst (earned_badges (run date catalog ops store u))) \<and>
         set (earned_badges (store u)) \<subseteq> set (earned_badges (run date catalog ops store u)) \<and>
         (distinct (map badge_type catalog) \<longrightarrow>
            total_points (run date catalog ops store u) + badge_points catalog (earned_badges (store u)) =
              total_points (store u) + awarded_directly u ops +
              badge_points catalog (earned_badges (run date catalog ops store u)))"
  using rows run_earned [of store u date catalog ops] run_points [of catalog date ops store u]
  by blast

text \<open>
  A badge for a first active day worth 10 points, evaluated three times around a direct
  award of 5 points: one row, earned at the first evaluation, and 15 points.
\<close>

theorem badges_awarded_once_witness:
  "earned_badges
     (run utc_day
        [\<lparr>badge_type = ''first_day'', points_value = 10, criteria = (\<lambda>s p l. 1 \<le> current_streak s)\<rparr>]
        [(''u1'', RecordActivity 86400), (''u1'', EvaluateBadges 86500),
         (''u1'', EvaluateBadges 86600), (''u1'', AwardPoints 5), (''u1'', EvaluateBadges 86700)]
        (\<lambda>u. new_user 0) ''u1'') = [(''first_day'', 86500)] \<and>
   total_points
     (run utc_day
        [\<lparr>badge_type = ''first_day'', points_value = 10, criteria = (\<lambda>s p l. 1 \<le> current_streak s)\<rparr>]
        [(''u1'', RecordActivity 86400), (''u1'', EvaluateBadges 86500),
         (''u1'', EvaluateBadges 86600), (''u1'', AwardPoints 5), (''u1'', EvaluateBadges 86700)]
        (\<lambda>u. new_user 0) ''u1'') = 15"
  using badges_awarded_once
    [of "\<lambda>u. new_user 0" "''u1''" utc_day
        "[\<lparr>badge_type = ''first_day'', points_value = 10, criteria = (\<lambda>s p l. 1 \<le> current_streak s)\<rparr>]"
        "[(''u1'', RecordActivity 86400), (''u1'', EvaluateBadges 86500),
          (''u1'', EvaluateBadges 86600), (''u1'', AwardPoints 5), (''u1'', EvaluateBadges 86700)]"]
  by (simp add: utc_day_def run_def step_def recordActivity_def recordActivity_on_def
      update_longest_def new_user_def evaluateBadges_def awardPoints_def)

end
